theory Spec2Isabelle
  imports Complex_Main "HOL-Library.Char_ord" "HOL-Library.List_Lexorder"
begin

section \<open>Python values\<close>

text \<open>
  A Python \<open>float\<close> is a binary64 value: a finite one is a rational number, and there
  are the two infinities and NaN. Comparisons follow IEEE 754: every ordered comparison with
  NaN is false. The sign of zero is not kept.
\<close>

datatype pyfloat = Fin rat | PosInf | NegInf | NaN

fun float_lt :: "pyfloat \<Rightarrow> pyfloat \<Rightarrow> bool" where
  "float_lt (Fin a) (Fin b) = (a < b)"
| "float_lt NaN _ = False"
| "float_lt _ NaN = False"
| "float_lt PosInf _ = False"
| "float_lt _ PosInf = True"
| "float_lt _ NegInf = False"
| "float_lt NegInf _ = True"

definition float_gt :: "pyfloat \<Rightarrow> pyfloat \<Rightarrow> bool" where
  "float_gt a b = float_lt b a"


text \<open>
  Python's two-argument \<open>max(a, b)\<close> keeps \<open>a\<close> unless \<open>b > a\<close>, and \<open>min(a, b)\<close>
  keeps \<open>a\<close> unless \<open>b < a\<close>.
\<close>

definition py_max :: "pyfloat \<Rightarrow> pyfloat \<Rightarrow> pyfloat" where
  "py_max a b = (if float_gt b a then b else a)"

definition py_min :: "pyfloat \<Rightarrow> pyfloat \<Rightarrow> pyfloat" where
  "py_min a b = (if float_lt b a then b else a)"

text \<open>
  The interpreter and its library, as far as the program calls them:
  \<^item> \<open>rnd\<close> rounds the exact result of a float operation, or the value of a float literal,
    to binary64 (results here stay far from the overflow threshold, so they are finite);
  \<^item> \<open>float\<close> is the builtin \<open>float(str)\<close>, \<open>None\<close> where it raises \<open>ValueError\<close>;
  \<^item> \<open>fromisoformat\<close> is \<open>datetime.date.fromisoformat\<close>, \<open>None\<close> where it raises;
  \<^item> \<open>today\<close> is \<open>datetime.date.today().isoformat()\<close> as evaluated when the module is loaded.
\<close>

record date =
  year :: int
  month :: int
  day :: int

record python =
  rnd :: "rat \<Rightarrow> rat"
  float :: "string \<Rightarrow> pyfloat option"
  fromisoformat :: "string \<Rightarrow> date option"
  today :: string

definition lit :: "python \<Rightarrow> rat \<Rightarrow> pyfloat" where
  "lit py q = Fin (rnd py q)"

definition float_of_int :: "python \<Rightarrow> int \<Rightarrow> pyfloat" where
  "float_of_int py i = Fin (rnd py (of_int i))"

definition signed_inf :: "bool \<Rightarrow> pyfloat" where
  "signed_inf positive = (if positive then PosInf else NegInf)"

fun fadd :: "python \<Rightarrow> pyfloat \<Rightarrow> pyfloat \<Rightarrow> pyfloat" where
  "fadd py (Fin a) (Fin b) = Fin (rnd py (a + b))"
| "fadd py NaN _ = NaN"
| "fadd py _ NaN = NaN"
| "fadd py PosInf NegInf = NaN"
| "fadd py NegInf PosInf = NaN"
| "fadd py PosInf _ = PosInf"
| "fadd py NegInf _ = NegInf"
| "fadd py _ PosInf = PosInf"
| "fadd py _ NegInf = NegInf"

fun fneg :: "pyfloat \<Rightarrow> pyfloat" where
  "fneg (Fin a) = Fin (- a)"
| "fneg PosInf = NegInf"
| "fneg NegInf = PosInf"
| "fneg NaN = NaN"

fun fsub :: "python \<Rightarrow> pyfloat \<Rightarrow> pyfloat \<Rightarrow> pyfloat" where
  "fsub py (Fin a) (Fin b) = Fin (rnd py (a - b))"
| "fsub py x y = fadd py x (fneg y)"

fun fmul :: "python \<Rightarrow> pyfloat \<Rightarrow> pyfloat \<Rightarrow> pyfloat" where
  "fmul py (Fin a) (Fin b) = Fin (rnd py (a * b))"
| "fmul py NaN _ = NaN"
| "fmul py _ NaN = NaN"
| "fmul py (Fin a) y = (if a = 0 then NaN else signed_inf ((0 < a) = (y = PosInf)))"
| "fmul py x (Fin b) = (if b = 0 then NaN else signed_inf ((0 < b) = (x = PosInf)))"
| "fmul py x y = signed_inf (x = y)"

text \<open>
  Float division; Python raises \<open>ZeroDivisionError\<close> on a zero divisor. The program divides
  by the literals \<open>1.7\<close> and \<open>100.0\<close> only, which are not zero.
\<close>

fun fdiv :: "python \<Rightarrow> pyfloat \<Rightarrow> pyfloat \<Rightarrow> pyfloat" where
  "fdiv py (Fin a) (Fin b) = Fin (rnd py (a / b))"
| "fdiv py NaN _ = NaN"
| "fdiv py _ NaN = NaN"
| "fdiv py (Fin a) _ = Fin 0"
| "fdiv py x (Fin b) = signed_inf ((0 < b) = (x = PosInf))"
| "fdiv py _ _ = NaN"

text \<open>Rounding to the nearest integer, a tie going to the even neighbour.\<close>

definition round_half_even :: "rat \<Rightarrow> int" where
  "round_half_even q =
     (let f = \<lfloor>q\<rfloor>; r = q - of_int f
      in if r < 1 / 2 then f else if 1 / 2 < r then f + 1 else if even f then f else f + 1)"

text \<open>
  Exceptions, by class. A \<open>CustomException\<close> carries its message and the exception it was
  raised from, if any: the \<open>e\<close> of \<open>raise CustomException(...) from e\<close> in \<open>app.py\<close>, and
  the \<open>error_detail\<close> of \<open>raise CustomException(..., e)\<close> in \<open>data_processing.py\<close>,
  which is also the exception being handled. The f-string messages of \<open>app.py\<close> are kept
  by their parts; \<open>Exception\<close> is an exception raised inside pandas, scikit-learn or joblib,
  identified by its text.
\<close>

datatype message =
    MustBeNumeric string
  | OutOfRange string pyfloat rat rat
  | InvalidDateFormat
  | Text string

datatype error =
    CustomException message "error option"
  | ValueError
  | OverflowError
  | KeyError string
  | Exception string

definition bindE :: "'e + 'a \<Rightarrow> ('a \<Rightarrow> 'e + 'b) \<Rightarrow> 'e + 'b" where
  "bindE m f = (case m of Inl e \<Rightarrow> Inl e | Inr x \<Rightarrow> f x)"

text \<open>\<open>round(x)\<close> of a float gives an \<open>int\<close> and raises on NaN and on an infinity.\<close>

fun py_round :: "pyfloat \<Rightarrow> error + int" where
  "py_round (Fin q) = Inr (round_half_even q)"
| "py_round NaN = Inl ValueError"
| "py_round _ = Inl OverflowError"

text \<open>\<open>round(x, 1)\<close> of a float gives the float nearest to \<open>x\<close> rounded to one decimal.\<close>

fun py_round1 :: "python \<Rightarrow> pyfloat \<Rightarrow> pyfloat" where
  "py_round1 py (Fin q) = Fin (rnd py (of_int (round_half_even (q * 10)) / 10))"
| "py_round1 py x = x"

datatype pyval = PyInt int | PyFloat pyfloat

text \<open>\<open>d[k]\<close> on a dict.\<close>

definition item :: "(string \<rightharpoonup> 'v) \<Rightarrow> string \<Rightarrow> error + 'v" where
  "item d k = (case d k of Some v \<Rightarrow> Inr v | None \<Rightarrow> Inl (KeyError k))"

text \<open>\<open>d.get(k, default)\<close> on a dict.\<close>

definition get :: "(string \<rightharpoonup> 'v) \<Rightarrow> string \<Rightarrow> 'v \<Rightarrow> 'v" where
  "get d k dflt = (case d k of Some v \<Rightarrow> v | None \<Rightarrow> dflt)"

section \<open>Encoders and choices of \<open>app.py\<close>\<close>

definition WIND_DIRS :: "string list" where
  "WIND_DIRS = [
    ''N'', ''NNE'', ''NE'', ''ENE'', ''E'', ''ESE'', ''SE'', ''SSE'',
    ''S'', ''SSW'', ''SW'', ''WSW'', ''W'', ''WNW'', ''NW'', ''NNW'']"

text \<open>
  The dict comprehension \<open>{d: i for i, d in enumerate(xs)}\<close>: the entries are stored from
  left to right, a later entry for the same key replacing an earlier one.
\<close>

definition enumerate_map :: "string list \<Rightarrow> (string \<rightharpoonup> int)" where
  "enumerate_map xs = fold (\<lambda>(i, d) m. m(d \<mapsto> int i)) (List.enumerate 0 xs) Map.empty"

definition WIND_DIR_MAP :: "string \<rightharpoonup> int" where
  "WIND_DIR_MAP = enumerate_map WIND_DIRS"

definition YES_NO_MAP :: "string \<rightharpoonup> int" where
  "YES_NO_MAP = map_of [(''No'', 0), (''Yes'', 1)]"

definition LOCATIONS :: "string list" where
  "LOCATIONS = [
    ''Adelaide'', ''Albury'', ''AliceSprings'', ''BadgerysCreek'', ''Ballarat'', ''Bendigo'',
    ''Brisbane'', ''Cairns'', ''Canberra'', ''Cobar'', ''CoffsHarbour'', ''Dartmoor'', ''Darwin'',
    ''GoldCoast'', ''Hobart'', ''Katherine'', ''Launceston'', ''Melbourne'', ''MelbourneAirport'',
    ''Mildura'', ''Moree'', ''MountGambier'', ''MountGinini'', ''Nhil'', ''NorahHead'',
    ''NorfolkIsland'', ''Nuriootpa'', ''PearceRAAF'', ''Penrith'', ''Perth'', ''PerthAirport'',
    ''Portland'', ''Richmond'', ''Sale'', ''SalmonGums'', ''Sydney'', ''SydneyAirport'',
    ''Townsville'', ''Tuggeranong'', ''Uluru'', ''WaggaWagga'', ''Walpole'', ''Watsonia'',
    ''Williamtown'', ''Witchcliffe'', ''Wollongong'', ''Woomera'']"

definition LOCATION_MAP :: "string \<rightharpoonup> int" where
  "LOCATION_MAP = enumerate_map LOCATIONS"

definition PREVAILING_BY_LOCATION :: "string \<rightharpoonup> string" where
  "PREVAILING_BY_LOCATION = map_of [
    (''Sydney'', ''NE''), (''SydneyAirport'', ''NE''), (''Wollongong'', ''NE''),
    (''Melbourne'', ''SW''), (''MelbourneAirport'', ''SW''), (''Geelong'', ''SW''),
    (''Perth'', ''SW''), (''PerthAirport'', ''SW''),
    (''Brisbane'', ''SE''), (''GoldCoast'', ''SE''), (''Cairns'', ''SE''), (''Townsville'', ''SE''),
    (''Hobart'', ''W''), (''Launceston'', ''W''),
    (''Darwin'', ''NW''), (''Katherine'', ''NW'')]"

section \<open>UI ranges and defaults\<close>

record range =
  rmin :: rat
  rmax :: rat
  step :: rat

definition RANGES :: "string \<rightharpoonup> range" where
  "RANGES = map_of [
    (''MinTemp'',      \<lparr>rmin = -10, rmax = 45,  step = 1 / 10\<rparr>),
    (''MaxTemp'',      \<lparr>rmin = -10, rmax = 50,  step = 1 / 10\<rparr>),
    (''Rainfall'',     \<lparr>rmin = 0,   rmax = 200, step = 1 / 10\<rparr>),
    (''WindSpeed3pm'', \<lparr>rmin = 0,   rmax = 100, step = 1\<rparr>),
    (''Humidity3pm'',  \<lparr>rmin = 0,   rmax = 100, step = 1\<rparr>)]"

text \<open>
  \<open>DEFAULTS\<close>, each entry as the string the function reads: \<open>Location\<close> and \<open>Date\<close> are
  strings already, and the numbers \<open>13.0\<close>, \<open>23.0\<close>, \<open>55\<close>, \<open>20\<close>, \<open>0.0\<close> are read through
  \<open>str\<close>.
\<close>

definition DEFAULTS :: "python \<Rightarrow> (string \<rightharpoonup> string)" where
  "DEFAULTS py = map_of [
    (''Location'', ''Sydney''),
    (''Date'', today py),
    (''MinTemp'', ''13.0''),
    (''MaxTemp'', ''23.0''),
    (''Humidity3pm'', ''55''),
    (''WindSpeed3pm'', ''20''),
    (''Rainfall'', ''0.0'')]"

section \<open>Helpers: parsing\<close>

definition parse_float :: "python \<Rightarrow> string \<Rightarrow> string \<Rightarrow> error + pyfloat" where
  "parse_float py name v =
     (case float py v of
        Some x \<Rightarrow> Inr x
      | None \<Rightarrow> Inl (CustomException (MustBeNumeric name) (Some ValueError)))"

definition parse_float_in_range ::
  "python \<Rightarrow> string \<Rightarrow> string \<Rightarrow> rat \<Rightarrow> rat \<Rightarrow> error + pyfloat" where
  "parse_float_in_range py name v lo hi =
     bindE (parse_float py name v) (\<lambda>x.
       if float_lt x (Fin lo) \<or> float_gt x (Fin hi)
       then Inl (CustomException (OutOfRange name x lo hi) None)
       else Inr x)"

definition parse_int_in_range ::
  "python \<Rightarrow> string \<Rightarrow> string \<Rightarrow> rat \<Rightarrow> rat \<Rightarrow> error + int" where
  "parse_int_in_range py name v lo hi =
     bindE (parse_float_in_range py name v lo hi) py_round"

definition parse_date :: "python \<Rightarrow> string \<Rightarrow> error + date" where
  "parse_date py v =
     (case fromisoformat py v of
        Some d \<Rightarrow> Inr d
      | None \<Rightarrow> Inl (CustomException InvalidDateFormat (Some ValueError)))"

section \<open>Helpers: inference\<close>

definition season_of :: "int \<Rightarrow> string" where
  "season_of m =
     (if m \<in> set [12, 1, 2] then ''summer''
      else if m \<in> set [3, 4, 5] then ''autumn''
      else if m \<in> set [6, 7, 8] then ''winter''
      else ''spring'')"

definition prevailing_dir_for_location :: "string \<Rightarrow> string" where
  "prevailing_dir_for_location loc = get PREVAILING_BY_LOCATION loc ''SW''"

text \<open>The values \<open>_infer_missing_features\<close> derives, each under the name of its variable.\<close>

definition temp3pm :: "python \<Rightarrow> pyfloat \<Rightarrow> pyfloat \<Rightarrow> pyfloat" where
  "temp3pm py min_temp max_temp =
     py_min max_temp
       (py_max min_temp
          (fdiv py (fadd py min_temp (fmul py (lit py (7 / 10)) max_temp)) (lit py (17 / 10))))"

definition temp9am :: "python \<Rightarrow> pyfloat \<Rightarrow> pyfloat \<Rightarrow> pyfloat" where
  "temp9am py min_temp max_temp =
     py_max min_temp
       (py_min max_temp
          (fadd py (fmul py (lit py (6 / 10)) min_temp) (fmul py (lit py (4 / 10)) max_temp)))"

definition sunshine :: "python \<Rightarrow> string \<Rightarrow> pyfloat" where
  "sunshine py season =
     get (map_of [(''summer'', lit py 9), (''autumn'', lit py 7),
                  (''winter'', lit py 5), (''spring'', lit py 8)]) season (lit py 7)"

definition cloud3pm :: "python \<Rightarrow> int \<Rightarrow> error + int" where
  "cloud3pm py hum_3pm =
     bindE (py_round (fmul py (fdiv py (float_of_int py hum_3pm) (lit py 100)) (float_of_int py 8)))
       (\<lambda>c. Inr (max 0 (min 8 c)))"

definition pressure3pm :: "python \<Rightarrow> int \<Rightarrow> pyfloat" where
  "pressure3pm py hum_3pm =
     py_round1 py
       (fsub py (lit py 1015) (fmul py (lit py (8 / 100)) (float_of_int py (hum_3pm - 50))))"

definition gust_speed :: "int \<Rightarrow> int" where
  "gust_speed spd_3pm = min 150 (max (spd_3pm + 20) spd_3pm)"

definition spd_9am :: "int \<Rightarrow> int" where
  "spd_9am spd_3pm = max 0 (spd_3pm - 3)"

definition evaporation :: "python \<Rightarrow> pyfloat \<Rightarrow> pyfloat \<Rightarrow> pyfloat \<Rightarrow> pyfloat" where
  "evaporation py sun min_temp max_temp =
     py_max (lit py 0)
       (fadd py (fmul py (lit py (12 / 100)) sun)
                (fmul py (lit py (3 / 100)) (fsub py max_temp min_temp)))"

definition rain_today :: "python \<Rightarrow> pyfloat \<Rightarrow> string" where
  "rain_today py rainfall = (if float_gt rainfall (lit py (2 / 10)) then ''Yes'' else ''No'')"

text \<open>\<open>form.get(k, DEFAULTS[k])\<close>, with \<open>str\<close> around the numeric defaults.\<close>

definition posted :: "python \<Rightarrow> (string \<rightharpoonup> string) \<Rightarrow> string \<Rightarrow> error + string" where
  "posted py form k = bindE (item (DEFAULTS py) k) (\<lambda>d. Inr (get form k d))"

definition infer_missing_features ::
  "python \<Rightarrow> (string \<rightharpoonup> string) \<Rightarrow> error + (string \<rightharpoonup> pyval)" where
  "infer_missing_features py form =
     bindE (posted py form ''Location'') (\<lambda>loc.
     bindE (posted py form ''Date'') (\<lambda>date_str.
     bindE (parse_date py date_str) (\<lambda>date.
     bindE (posted py form ''MinTemp'') (\<lambda>v.
     bindE (item RANGES ''MinTemp'') (\<lambda>r.
     bindE (parse_float_in_range py ''MinTemp'' v (rmin r) (rmax r)) (\<lambda>min_temp.
     bindE (posted py form ''MaxTemp'') (\<lambda>v.
     bindE (item RANGES ''MaxTemp'') (\<lambda>r.
     bindE (parse_float_in_range py ''MaxTemp'' v (rmin r) (rmax r)) (\<lambda>max_temp.
     bindE (posted py form ''Humidity3pm'') (\<lambda>v.
     bindE (item RANGES ''Humidity3pm'') (\<lambda>r.
     bindE (parse_int_in_range py ''Humidity3pm'' v (rmin r) (rmax r)) (\<lambda>hum_3pm.
     bindE (posted py form ''WindSpeed3pm'') (\<lambda>v.
     bindE (item RANGES ''WindSpeed3pm'') (\<lambda>r.
     bindE (parse_int_in_range py ''WindSpeed3pm'' v (rmin r) (rmax r)) (\<lambda>spd_3pm.
     bindE (posted py form ''Rainfall'') (\<lambda>v.
     bindE (item RANGES ''Rainfall'') (\<lambda>r.
     bindE (parse_float_in_range py ''Rainfall'' v (rmin r) (rmax r)) (\<lambda>rainfall.
     let season = season_of (month date);
         sun = sunshine py season
     in
     bindE (cloud3pm py hum_3pm) (\<lambda>cloud.
     let pressure = pressure3pm py hum_3pm;
         dir3pm = prevailing_dir_for_location loc;
         loc_enc = get LOCATION_MAP loc 0
     in
     bindE (item WIND_DIR_MAP ''SW'') (\<lambda>sw.
     let dir3pm_enc = get WIND_DIR_MAP dir3pm sw in
     bindE (item YES_NO_MAP (rain_today py rainfall)) (\<lambda>rain_today_enc.
     Inr (map_of [
       (''Location'', PyInt loc_enc),
       (''MinTemp'', PyFloat min_temp),
       (''MaxTemp'', PyFloat max_temp),
       (''Rainfall'', PyFloat rainfall),
       (''Evaporation'', PyFloat (evaporation py sun min_temp max_temp)),
       (''Sunshine'', PyFloat sun),
       (''WindGustDir'', PyInt dir3pm_enc),
       (''WindGustSpeed'', PyInt (gust_speed spd_3pm)),
       (''WindDir9am'', PyInt dir3pm_enc),
       (''WindDir3pm'', PyInt dir3pm_enc),
       (''WindSpeed9am'', PyInt (spd_9am spd_3pm)),
       (''WindSpeed3pm'', PyInt spd_3pm),
       (''Humidity9am'', PyInt hum_3pm),
       (''Humidity3pm'', PyInt hum_3pm),
       (''Pressure9am'', PyFloat pressure),
       (''Pressure3pm'', PyFloat pressure),
       (''Cloud9am'', PyInt cloud),
       (''Cloud3pm'', PyInt cloud),
       (''Temp9am'', PyFloat (temp9am py min_temp max_temp)),
       (''Temp3pm'', PyFloat (temp3pm py min_temp max_temp)),
       (''RainToday'', PyInt rain_today_enc),
       (''Year'', PyInt (year date)),
       (''Month'', PyInt (month date)),
       (''Day'', PyInt (day date))]))))))))))))))))))))))"

text \<open>
  The list display \<open>[vals[k1], vals[k2], ...]\<close> reads the keys from left to right and raises
  the first \<open>KeyError\<close>.
\<close>

fun items :: "(string \<rightharpoonup> 'v) \<Rightarrow> string list \<Rightarrow> error + 'v list" where
  "items vals [] = Inr []"
| "items vals (k # ks) = bindE (item vals k) (\<lambda>v. bindE (items vals ks) (\<lambda>vs. Inr (v # vs)))"

text \<open>The conversion of an entry by \<open>np.array(..., dtype=float)\<close>.\<close>

fun as_float :: "python \<Rightarrow> pyval \<Rightarrow> pyfloat" where
  "as_float py (PyInt i) = float_of_int py i"
| "as_float py (PyFloat x) = x"

definition build_feature_vector_from_inferred ::
  "python \<Rightarrow> (string \<rightharpoonup> pyval) \<Rightarrow> error + pyfloat list list" where
  "build_feature_vector_from_inferred py vals =
     bindE (items vals [
       ''Location'', ''MinTemp'', ''MaxTemp'', ''Rainfall'',
       ''Evaporation'', ''Sunshine'', ''WindGustDir'', ''WindGustSpeed'',
       ''WindDir9am'', ''WindDir3pm'', ''WindSpeed9am'', ''WindSpeed3pm'',
       ''Humidity9am'', ''Humidity3pm'', ''Pressure9am'', ''Pressure3pm'',
       ''Cloud9am'', ''Cloud3pm'', ''Temp9am'', ''Temp3pm'',
       ''RainToday'', ''Year'', ''Month'', ''Day''])
     (\<lambda>ordered. Inr [map (as_float py) ordered])"

section \<open>The accuracy of binary64\<close>


section \<open>The clamp of the specification\<close>


section \<open>An interpreter for examples\<close>

text \<open>
  The examples below run the definitions in an interpreter without rounding error, whose
  \<open>float\<close> reads plain decimal literals and \<open>nan\<close> and whose \<open>fromisoformat\<close> reads
  \<open>YYYY-MM-DD\<close>; on these strings Python's functions give the same values, up to the
  rounding of the literal.
\<close>

definition digit :: "char \<Rightarrow> nat option" where
  "digit c = (let n = (of_char c :: nat) in if 48 \<le> n \<and> n \<le> 57 then Some (n - 48) else None)"

fun digits_value :: "string \<Rightarrow> nat \<Rightarrow> nat option" where
  "digits_value [] acc = Some acc"
| "digits_value (c # cs) acc =
     (case digit c of None \<Rightarrow> None | Some d \<Rightarrow> digits_value cs (10 * acc + d))"

definition unsigned_decimal :: "string \<Rightarrow> rat option" where
  "unsigned_decimal s =
     (let ip = takeWhile (\<lambda>c. c \<noteq> CHR ''.'') s;
          fp = drop (Suc (length ip)) s
      in if ip = [] \<or> (fp = [] \<and> CHR ''.'' \<in> set s) then None
         else case (digits_value ip 0, digits_value fp 0) of
                (Some i, Some f) \<Rightarrow> Some (of_nat i + of_nat f / 10 ^ length fp)
              | _ \<Rightarrow> None)"

definition decimal_float :: "string \<Rightarrow> pyfloat option" where
  "decimal_float s =
     (if s = ''nan'' then Some NaN
      else case s of
             CHR ''-'' # t \<Rightarrow> map_option (\<lambda>q. Fin (- q)) (unsigned_decimal t)
           | _ \<Rightarrow> map_option Fin (unsigned_decimal s))"

definition days_in_month :: "nat \<Rightarrow> nat \<Rightarrow> nat" where
  "days_in_month y m =
     (if m = 2 then (if y mod 4 = 0 \<and> (y mod 100 \<noteq> 0 \<or> y mod 400 = 0) then 29 else 28)
      else if m \<in> set [4, 6, 9, 11] then 30 else 31)"

definition iso_date :: "string \<Rightarrow> date option" where
  "iso_date s =
     (if length s = 10 \<and> s ! 4 = CHR ''-'' \<and> s ! 7 = CHR ''-'' then
        case (digits_value (take 4 s) 0, digits_value (take 2 (drop 5 s)) 0,
              digits_value (drop 8 s) 0) of
          (Some y, Some m, Some d) \<Rightarrow>
            if 1 \<le> y \<and> 1 \<le> m \<and> m \<le> 12 \<and> 1 \<le> d \<and> d \<le> days_in_month y m
            then Some \<lparr>year = int y, month = int m, day = int d\<rparr> else None
        | _ \<Rightarrow> None
      else None)"

definition exact_python :: python where
  "exact_python = \<lparr>rnd = (\<lambda>q. q), float = decimal_float, fromisoformat = iso_date,
     today = ''2024-07-15''\<rparr>"

text \<open>
  The end-to-end scenario of the specification (Sydney on 2024-07-15, 10 to 18 degrees,
  humidity 70, wind 15), with a rainfall of exactly 0.2.
\<close>

definition scenario :: "string \<rightharpoonup> string" where
  "scenario = map_of [
     (''Location'', ''Sydney''), (''Date'', ''2024-07-15''), (''MinTemp'', ''10''),
     (''MaxTemp'', ''18''), (''Humidity3pm'', ''70''), (''WindSpeed3pm'', ''15''),
     (''Rainfall'', ''0.2'')]"

definition scenario_vals :: "string \<rightharpoonup> pyval" where
  "scenario_vals = map_of [
     (''Location'', PyInt 35), (''MinTemp'', PyFloat (Fin 10)), (''MaxTemp'', PyFloat (Fin 18)),
     (''Rainfall'', PyFloat (Fin (1 / 5))), (''Evaporation'', PyFloat (Fin (21 / 25))),
     (''Sunshine'', PyFloat (Fin 5)), (''WindGustDir'', PyInt 2), (''WindGustSpeed'', PyInt 35),
     (''WindDir9am'', PyInt 2), (''WindDir3pm'', PyInt 2), (''WindSpeed9am'', PyInt 12),
     (''WindSpeed3pm'', PyInt 15), (''Humidity9am'', PyInt 70), (''Humidity3pm'', PyInt 70),
     (''Pressure9am'', PyFloat (Fin (5067 / 5))), (''Pressure3pm'', PyFloat (Fin (5067 / 5))),
     (''Cloud9am'', PyInt 6), (''Cloud3pm'', PyInt 6), (''Temp9am'', PyFloat (Fin (66 / 5))),
     (''Temp3pm'', PyFloat (Fin (226 / 17))), (''RainToday'', PyInt 0), (''Year'', PyInt 2024),
     (''Month'', PyInt 7), (''Day'', PyInt 15)]"

definition scenario_row :: "pyfloat list" where
  "scenario_row = [Fin 35, Fin 10, Fin 18, Fin (1 / 5), Fin (21 / 25), Fin 5, Fin 2, Fin 35,
     Fin 2, Fin 2, Fin 12, Fin 15, Fin 70, Fin 70, Fin (5067 / 5), Fin (5067 / 5), Fin 6, Fin 6,
     Fin (66 / 5), Fin (226 / 17), Fin 0, Fin 2024, Fin 7, Fin 15]"

text \<open>A form whose minimum temperature is above its maximum; the other fields are absent.\<close>

definition crossed :: "string \<rightharpoonup> string" where
  "crossed = map_of [(''MinTemp'', ''30''), (''MaxTemp'', ''20'')]"




text \<open>Two forms that post \<open>nan\<close>, which \<open>float\<close> reads as NaN.\<close>

definition nan_humidity :: "string \<rightharpoonup> string" where
  "nan_humidity = map_of [(''Humidity3pm'', ''nan''), (''Rainfall'', ''abc'')]"

definition nan_min_temp :: "string \<rightharpoonup> string" where
  "nan_min_temp = map_of [(''MinTemp'', ''nan'')]"

section \<open>The offline pipeline of \<open>data_processing.py\<close>\<close>

text \<open>
  The calls into pandas, scikit-learn and joblib, each returning its result or the exception it
  raises. \<open>'df\<close> is the type of a dataframe (or series). \<open>expand_and_impute\<close> stands for the
  pandas statements of \<open>preprocess\<close>, which change the frame in place: it returns the frame
  as they leave it, also when one of them raises. \<open>fit_transform\<close> encodes one column of the
  frame, \<open>drop_target\<close> gives the features and the target, \<open>dump\<close> writes one object.
  Exceptions that are not of class \<open>Exception\<close> (a keyboard interrupt) are not modelled.
\<close>

datatype log_record = Info string | Error string

record 'df library =
  read_csv :: "string \<Rightarrow> error + 'df"
  expand_and_impute :: "'df \<Rightarrow> error option \<times> 'df"
  fit_transform :: "'df \<Rightarrow> string \<Rightarrow> error + 'df"
  drop_target :: "'df \<Rightarrow> error + 'df \<times> 'df"
  train_test_split :: "'df \<Rightarrow> 'df \<Rightarrow> error + 'df \<times> 'df \<times> 'df \<times> 'df"
  dump :: "'df \<Rightarrow> string \<Rightarrow> error option"

text \<open>
  A \<open>DataProcessing\<close> object with what its methods do to the world: the records sent to the
  logger and the files written.
\<close>

record 'df data_processing =
  input_path :: string
  output_path :: string
  df :: "'df option"
  logged :: "log_record list"
  files :: "(string \<times> 'df) list"

text \<open>A method returns (\<open>None\<close>) or raises (\<open>Some e\<close>), and leaves a state either way.\<close>

type_synonym 'df outcome = "error option \<times> 'df data_processing"

definition info :: "string \<Rightarrow> 'df data_processing \<Rightarrow> 'df data_processing" where
  "info msg s = s\<lparr>logged := logged s @ [Info msg]\<rparr>"

text \<open>
  The pattern of every method: \<open>try: body except Exception as e: logger.error(error_msg, e);
  raise CustomException(failed_msg, e)\<close>.
\<close>

definition try_except ::
  "string \<Rightarrow> string \<Rightarrow> ('df data_processing \<Rightarrow> 'df outcome) \<Rightarrow> 'df data_processing \<Rightarrow> 'df outcome" where
  "try_except failed_msg error_msg body s =
     (case body s of
        (None, t) \<Rightarrow> (None, t)
      | (Some e, t) \<Rightarrow>
          (Some (CustomException (Text failed_msg) (Some e)),
           t\<lparr>logged := logged t @ [Error error_msg]\<rparr>))"

text \<open>\<open>os.path.join\<close> of a directory and a file name (POSIX).\<close>

definition path_join :: "string \<Rightarrow> string \<Rightarrow> string" where
  "path_join a b = (if a = [] then b else if last a = CHR ''/'' then a @ b else a @ ''/'' @ b)"

definition load_data_body :: "'df library \<Rightarrow> 'df data_processing \<Rightarrow> 'df outcome" where
  "load_data_body lib s =
     (case read_csv lib (input_path s) of
        Inl e \<Rightarrow> (Some e, s)
      | Inr d \<Rightarrow> (None, info ''Data loaded successfully. Shape: %s'' (s\<lparr>df := Some d\<rparr>)))"

definition load_data :: "'df library \<Rightarrow> 'df data_processing \<Rightarrow> 'df outcome" where
  "load_data lib =
     try_except ''Failed to load data'' ''Error while loading data: %s'' (load_data_body lib)"

definition preprocess_body :: "'df library \<Rightarrow> 'df data_processing \<Rightarrow> 'df outcome" where
  "preprocess_body lib s =
     (case df s of
        None \<Rightarrow> (Some ValueError, s)
      | Some d \<Rightarrow>
          (case expand_and_impute lib d of
             (Some e, d') \<Rightarrow> (Some e, s\<lparr>df := Some d'\<rparr>)
           | (None, d') \<Rightarrow>
               (None, info ''Basic data preprocessing completed.'' (s\<lparr>df := Some d'\<rparr>))))"

definition preprocess :: "'df library \<Rightarrow> 'df data_processing \<Rightarrow> 'df outcome" where
  "preprocess lib =
     try_except ''Failed to preprocess data'' ''Error while preprocessing data: %s''
       (preprocess_body lib)"

text \<open>The loop of \<open>label_encode\<close> over the columns.\<close>

fun encode_columns ::
  "'df library \<Rightarrow> string list \<Rightarrow> 'df \<Rightarrow> 'df data_processing \<Rightarrow> 'df outcome" where
  "encode_columns lib [] d s = (None, s\<lparr>df := Some d\<rparr>)"
| "encode_columns lib (col # cols) d s =
     (case fit_transform lib d col of
        Inl e \<Rightarrow> (Some e, s\<lparr>df := Some d\<rparr>)
      | Inr d' \<Rightarrow> encode_columns lib cols d' (info ''Label mapping for %s: %s'' s))"

definition label_encode_body :: "'df library \<Rightarrow> 'df data_processing \<Rightarrow> 'df outcome" where
  "label_encode_body lib s =
     (case df s of
        None \<Rightarrow> (Some ValueError, s)
      | Some d \<Rightarrow>
          (case encode_columns lib
                  [''Location'', ''WindGustDir'', ''WindDir9am'', ''WindDir3pm'',
                   ''RainToday'', ''RainTomorrow''] d s of
             (Some e, t) \<Rightarrow> (Some e, t)
           | (None, t) \<Rightarrow> (None, info ''Label encoding completed.'' t)))"

definition label_encode :: "'df library \<Rightarrow> 'df data_processing \<Rightarrow> 'df outcome" where
  "label_encode lib =
     try_except ''Failed to label encode data'' ''Error while label encoding data: %s''
       (label_encode_body lib)"

text \<open>The four \<open>joblib.dump\<close> calls of \<open>split_data\<close>, in order.\<close>

fun dump_all ::
  "'df library \<Rightarrow> ('df \<times> string) list \<Rightarrow> 'df data_processing \<Rightarrow> 'df outcome" where
  "dump_all lib [] s = (None, s)"
| "dump_all lib ((obj, name) # rest) s =
     (case dump lib obj (path_join (output_path s) name) of
        Some e \<Rightarrow> (Some e, s)
      | None \<Rightarrow>
          dump_all lib rest (s\<lparr>files := files s @ [(path_join (output_path s) name, obj)]\<rparr>))"

definition split_data_body :: "'df library \<Rightarrow> 'df data_processing \<Rightarrow> 'df outcome" where
  "split_data_body lib s =
     (case df s of
        None \<Rightarrow> (Some ValueError, s)
      | Some d \<Rightarrow>
          (case drop_target lib d of
             Inl e \<Rightarrow> (Some e, s)
           | Inr (X, Y) \<Rightarrow>
               (case train_test_split lib X Y of
                  Inl e \<Rightarrow> (Some e, info ''Feature columns: %s'' s)
                | Inr (X_train, X_test, y_train, y_test) \<Rightarrow>
                    (case dump_all lib
                            [(X_train, ''X_train.pkl''), (X_test, ''X_test.pkl''),
                             (y_train, ''y_train.pkl''), (y_test, ''y_test.pkl'')]
                            (info ''Feature columns: %s'' s) of
                       (Some e, t) \<Rightarrow> (Some e, t)
                     | (None, t) \<Rightarrow>
                         (None, info ''Data split and persistence completed successfully.'' t)))))"

definition split_data :: "'df library \<Rightarrow> 'df data_processing \<Rightarrow> 'df outcome" where
  "split_data lib =
     try_except ''Failed to split data'' ''Error while splitting data: %s'' (split_data_body lib)"

text \<open>Two statements in sequence: an exception of the first skips the second.\<close>

definition and_then ::
  "'df outcome \<Rightarrow> ('df data_processing \<Rightarrow> 'df outcome) \<Rightarrow> 'df outcome" where
  "and_then r next = (case r of (Some e, s) \<Rightarrow> (Some e, s) | (None, s) \<Rightarrow> next s)"

definition run :: "'df library \<Rightarrow> 'df data_processing \<Rightarrow> 'df outcome" where
  "run lib s =
     and_then (load_data lib s) (\<lambda>s.
     and_then (preprocess lib s) (\<lambda>s.
     and_then (label_encode lib s) (\<lambda>s.
     and_then (split_data lib s) (\<lambda>s.
     (None, info ''Data processing completed.'' s)))))"

text \<open>
  A library whose label encoder fails on the third column, and a freshly made processor.
\<close>

definition sample_library :: "nat library" where
  "sample_library = \<lparr>
     read_csv = (\<lambda>path. if path = ''artifacts/raw/data.csv'' then Inr 0
                        else Inl (Exception ''FileNotFoundError'')),
     expand_and_impute = (\<lambda>d. (None, d + 1)),
     fit_transform = (\<lambda>d col. if col = ''WindDir9am'' then Inl (Exception ''TypeError'')
                              else Inr (d + 1)),
     drop_target = (\<lambda>d. Inr (d, d)),
     train_test_split = (\<lambda>X Y. Inr (X, X, Y, Y)),
     dump = (\<lambda>obj path. None)\<rparr>"

definition processor :: "nat data_processing" where
  "processor = \<lparr>input_path = ''artifacts/raw/data.csv'', output_path = ''artifacts/processed'',
     df = None, logged = [Info ''Data Processing initialised.''], files = []\<rparr>"

section \<open>The location vocabulary\<close>

lemma fold_enumerate_other:
  "k \<notin> set xs \<Longrightarrow>
   fold (\<lambda>(i, d) m. m(d \<mapsto> int i)) (List.enumerate n xs) m0 k = m0 k"
  by (induction xs arbitrary: n m0) auto

lemma fold_enumerate_nth:
  "distinct xs \<Longrightarrow> i < length xs \<Longrightarrow>
   fold (\<lambda>(i, d) m. m(d \<mapsto> int i)) (List.enumerate n xs) m0 (xs ! i) = Some (int (n + i))"
proof (induction xs arbitrary: n m0 i)
  case Nil
  then show ?case by simp
next
  case (Cons x xs)
  show ?case
  proof (cases i)
    case 0
    from Cons.prems have "x \<notin> set xs" by simp
    then have "fold (\<lambda>(i, d) m. m(d \<mapsto> int i)) (List.enumerate (Suc n) xs)
        (m0(x \<mapsto> int n)) x = (m0(x \<mapsto> int n)) x"
      by (rule fold_enumerate_other)
    also have "\<dots> = Some (int n)" by simp
    finally show ?thesis using 0 by (simp del: fun_upd_apply)
  next
    case (Suc j)
    with Cons.prems have "j < length xs" and "distinct xs" by simp_all
    from Cons.IH [OF this(2) this(1), of "Suc n"] Suc show ?thesis by simp
  qed
qed

lemma enumerate_map_nth:
  "distinct xs \<Longrightarrow> i < length xs \<Longrightarrow> enumerate_map xs (xs ! i) = Some (int i)"
  using fold_enumerate_nth [of xs i 0 Map.empty] by (simp add: enumerate_map_def)

lemma enumerate_map_other: "k \<notin> set xs \<Longrightarrow> enumerate_map xs k = None"
  by (simp add: enumerate_map_def fold_enumerate_other)

lemma dom_enumerate_map: "distinct xs \<Longrightarrow> dom (enumerate_map xs) = set xs"
proof (intro set_eqI iffI)
  fix k assume "distinct xs" and "k \<in> dom (enumerate_map xs)"
  then show "k \<in> set xs"
    using enumerate_map_other [of k xs] by (cases "k \<in> set xs") auto
next
  fix k assume d: "distinct xs" and "k \<in> set xs"
  then obtain i where "i < length xs" and "xs ! i = k"
    by (auto simp: in_set_conv_nth)
  with enumerate_map_nth [OF d, of i] show "k \<in> dom (enumerate_map xs)" by auto
qed

lemma ran_enumerate_map:
  assumes "distinct xs"
  shows "ran (enumerate_map xs) = int ` {0..<length xs}"
proof (intro set_eqI iffI)
  fix v assume "v \<in> ran (enumerate_map xs)"
  then obtain k where k: "enumerate_map xs k = Some v" by (auto simp: ran_def)
  then have "k \<in> set xs" using enumerate_map_other [of k xs] by auto
  then obtain i where i: "i < length xs" "xs ! i = k" by (auto simp: in_set_conv_nth)
  with enumerate_map_nth [OF assms, of i] k show "v \<in> int ` {0..<length xs}" by auto
next
  fix v assume "v \<in> int ` {0..<length xs}"
  then obtain i where i: "i < length xs" "v = int i" by auto
  with enumerate_map_nth [OF assms, of i] show "v \<in> ran (enumerate_map xs)"
    by (auto simp: ran_def)
qed

lemma inj_on_enumerate_map:
  assumes "distinct xs"
  shows "inj_on (enumerate_map xs) (set xs)"
proof (rule inj_onI)
  fix a b assume "a \<in> set xs" "b \<in> set xs" and eq: "enumerate_map xs a = enumerate_map xs b"
  then obtain i j where ij: "i < length xs" "xs ! i = a" "j < length xs" "xs ! j = b"
    by (auto simp: in_set_conv_nth)
  with enumerate_map_nth [OF assms, of i] enumerate_map_nth [OF assms, of j] eq
  have "i = j" by simp
  with ij show "a = b" by simp
qed

lemma length_LOCATIONS: "length LOCATIONS = 47"
  by (simp add: LOCATIONS_def)

lemma strict_sorted_LOCATIONS: "sorted_wrt (<) LOCATIONS"
  unfolding LOCATIONS_def
  by (simp only: sorted_wrt2 [OF transp_on_less] sorted_wrt1) simp

lemma distinct_LOCATIONS: "distinct LOCATIONS"
  using strict_sorted_LOCATIONS by (simp add: strict_sorted_iff)

text \<open>
  C1. The location vocabulary is a fixed list of names in alphabetical order, each mapped to
  a code of its own, and decoding a code and encoding the name again gives the code back.
  The list has 47 names, not 48, so the codes are exactly the integers from 0 to 46.
\<close>

theorem location_vocabulary:
  "length LOCATIONS = 47
   \<and> sorted_wrt (<) LOCATIONS
   \<and> dom LOCATION_MAP = set LOCATIONS
   \<and> inj_on LOCATION_MAP (set LOCATIONS)
   \<and> ran LOCATION_MAP = {0..46}
   \<and> (\<forall>i<47. LOCATION_MAP (LOCATIONS ! i) = Some (int i))"
proof -
  have "int ` {0..<47} = {0..46}"
    by (auto simp: image_int_atLeastLessThan)
  then have "ran LOCATION_MAP = {0..46}"
    using ran_enumerate_map [OF distinct_LOCATIONS]
    by (simp add: LOCATION_MAP_def length_LOCATIONS)
  moreover have "\<forall>i<47. LOCATION_MAP (LOCATIONS ! i) = Some (int i)"
    using enumerate_map_nth [OF distinct_LOCATIONS]
    by (simp add: LOCATION_MAP_def length_LOCATIONS)
  ultimately show ?thesis
    using dom_enumerate_map [OF distinct_LOCATIONS] inj_on_enumerate_map [OF distinct_LOCATIONS]
    by (simp add: LOCATION_MAP_def length_LOCATIONS strict_sorted_LOCATIONS)
qed

theorem location_vocabulary_witness:
  "LOCATIONS ! 35 = ''Sydney'' \<and> LOCATION_MAP ''Sydney'' = Some 35"
proof -
  have n: "LOCATIONS ! 35 = ''Sydney''"
    by (simp add: LOCATIONS_def)
  from location_vocabulary have "LOCATION_MAP (LOCATIONS ! 35) = Some (int 35)"
    by simp
  with n show ?thesis by simp
qed

theorem location_vocabulary_not_48:
  "\<not> (length LOCATIONS = 48) \<and> 47 \<notin> ran LOCATION_MAP"
proof -
  have "ran LOCATION_MAP = int ` {0..<47}"
    using ran_enumerate_map [OF distinct_LOCATIONS]
    by (simp add: LOCATION_MAP_def length_LOCATIONS)
  then show ?thesis by (auto simp: length_LOCATIONS)
qed


section \<open>Reading \<open>_infer_missing_features\<close>\<close>

lemma bindE_Inr_iff: "bindE m f = Inr y \<longleftrightarrow> (\<exists>x. m = Inr x \<and> f x = Inr y)"
  by (cases m) (simp_all add: bindE_def)

lemma bindE_Inr [simp]: "bindE (Inr x) f = f x"
  by (simp add: bindE_def)

lemma bindE_Inl [simp]: "bindE (Inl e) f = Inl e"
  by (simp add: bindE_def)

lemma posted_keys:
  "posted py form ''Location'' = Inr (get form ''Location'' ''Sydney'')"
  "posted py form ''Date'' = Inr (get form ''Date'' (today py))"
  "posted py form ''MinTemp'' = Inr (get form ''MinTemp'' ''13.0'')"
  "posted py form ''MaxTemp'' = Inr (get form ''MaxTemp'' ''23.0'')"
  "posted py form ''Humidity3pm'' = Inr (get form ''Humidity3pm'' ''55'')"
  "posted py form ''WindSpeed3pm'' = Inr (get form ''WindSpeed3pm'' ''20'')"
  "posted py form ''Rainfall'' = Inr (get form ''Rainfall'' ''0.0'')"
  by (simp_all add: posted_def item_def DEFAULTS_def)

lemma item_RANGES:
  "item RANGES ''MinTemp'' = Inr \<lparr>rmin = -10, rmax = 45, step = 1 / 10\<rparr>"
  "item RANGES ''MaxTemp'' = Inr \<lparr>rmin = -10, rmax = 50, step = 1 / 10\<rparr>"
  "item RANGES ''Rainfall'' = Inr \<lparr>rmin = 0, rmax = 200, step = 1 / 10\<rparr>"
  "item RANGES ''WindSpeed3pm'' = Inr \<lparr>rmin = 0, rmax = 100, step = 1\<rparr>"
  "item RANGES ''Humidity3pm'' = Inr \<lparr>rmin = 0, rmax = 100, step = 1\<rparr>"
  by (simp_all add: item_def RANGES_def)

lemma item_SW: "item WIND_DIR_MAP ''SW'' = Inr 10"
  by (simp add: item_def WIND_DIR_MAP_def enumerate_map_def WIND_DIRS_def enumerate_eq_zip upt_rec)

lemma item_YES_NO:
  "item YES_NO_MAP (rain_today py rainfall) =
     Inr (if float_gt rainfall (lit py (2 / 10)) then 1 else 0)"
  by (simp add: item_def YES_NO_MAP_def rain_today_def)

lemma cloud3pm_eq:
  "cloud3pm py h = Inr (max 0 (min 8 (round_half_even
      (rnd py (rnd py (rnd py (of_int h) / rnd py 100) * rnd py 8)))))"
  by (simp add: cloud3pm_def float_of_int_def lit_def)

lemma infer_missing_features_eq:
  "infer_missing_features py form =
     bindE (parse_date py (get form ''Date'' (today py))) (\<lambda>date.
     bindE (parse_float_in_range py ''MinTemp'' (get form ''MinTemp'' ''13.0'') (-10) 45) (\<lambda>min_temp.
     bindE (parse_float_in_range py ''MaxTemp'' (get form ''MaxTemp'' ''23.0'') (-10) 50) (\<lambda>max_temp.
     bindE (parse_int_in_range py ''Humidity3pm'' (get form ''Humidity3pm'' ''55'') 0 100) (\<lambda>hum_3pm.
     bindE (parse_int_in_range py ''WindSpeed3pm'' (get form ''WindSpeed3pm'' ''20'') 0 100) (\<lambda>spd_3pm.
     bindE (parse_float_in_range py ''Rainfall'' (get form ''Rainfall'' ''0.0'') 0 200) (\<lambda>rainfall.
     bindE (cloud3pm py hum_3pm) (\<lambda>cloud.
     Inr (map_of [
       (''Location'', PyInt (get LOCATION_MAP (get form ''Location'' ''Sydney'') 0)),
       (''MinTemp'', PyFloat min_temp),
       (''MaxTemp'', PyFloat max_temp),
       (''Rainfall'', PyFloat rainfall),
       (''Evaporation'',
          PyFloat (evaporation py (sunshine py (season_of (month date))) min_temp max_temp)),
       (''Sunshine'', PyFloat (sunshine py (season_of (month date)))),
       (''WindGustDir'', PyInt (get WIND_DIR_MAP
          (prevailing_dir_for_location (get form ''Location'' ''Sydney'')) 10)),
       (''WindGustSpeed'', PyInt (gust_speed spd_3pm)),
       (''WindDir9am'', PyInt (get WIND_DIR_MAP
          (prevailing_dir_for_location (get form ''Location'' ''Sydney'')) 10)),
       (''WindDir3pm'', PyInt (get WIND_DIR_MAP
          (prevailing_dir_for_location (get form ''Location'' ''Sydney'')) 10)),
       (''WindSpeed9am'', PyInt (spd_9am spd_3pm)),
       (''WindSpeed3pm'', PyInt spd_3pm),
       (''Humidity9am'', PyInt hum_3pm),
       (''Humidity3pm'', PyInt hum_3pm),
       (''Pressure9am'', PyFloat (pressure3pm py hum_3pm)),
       (''Pressure3pm'', PyFloat (pressure3pm py hum_3pm)),
       (''Cloud9am'', PyInt cloud),
       (''Cloud3pm'', PyInt cloud),
       (''Temp9am'', PyFloat (temp9am py min_temp max_temp)),
       (''Temp3pm'', PyFloat (temp3pm py min_temp max_temp)),
       (''RainToday'', PyInt (if float_gt rainfall (lit py (2 / 10)) then 1 else 0)),
       (''Year'', PyInt (year date)),
       (''Month'', PyInt (month date)),
       (''Day'', PyInt (day date))]))))))))"
  unfolding infer_missing_features_def
  by (simp only: posted_keys item_RANGES item_SW item_YES_NO bindE_Inr Let_def
      range.simps)

lemma infer_Inr_E:
  assumes "infer_missing_features py form = Inr out"
  obtains date min_temp max_temp hum_3pm spd_3pm rainfall cloud where
    "parse_date py (get form ''Date'' (today py)) = Inr date"
    "parse_float_in_range py ''MinTemp'' (get form ''MinTemp'' ''13.0'') (-10) 45 = Inr min_temp"
    "parse_float_in_range py ''MaxTemp'' (get form ''MaxTemp'' ''23.0'') (-10) 50 = Inr max_temp"
    "parse_int_in_range py ''Humidity3pm'' (get form ''Humidity3pm'' ''55'') 0 100 = Inr hum_3pm"
    "parse_int_in_range py ''WindSpeed3pm'' (get form ''WindSpeed3pm'' ''20'') 0 100 = Inr spd_3pm"
    "parse_float_in_range py ''Rainfall'' (get form ''Rainfall'' ''0.0'') 0 200 = Inr rainfall"
    "cloud3pm py hum_3pm = Inr cloud"
    "out = map_of [
       (''Location'', PyInt (get LOCATION_MAP (get form ''Location'' ''Sydney'') 0)),
       (''MinTemp'', PyFloat min_temp),
       (''MaxTemp'', PyFloat max_temp),
       (''Rainfall'', PyFloat rainfall),
       (''Evaporation'',
          PyFloat (evaporation py (sunshine py (season_of (month date))) min_temp max_temp)),
       (''Sunshine'', PyFloat (sunshine py (season_of (month date)))),
       (''WindGustDir'', PyInt (get WIND_DIR_MAP
          (prevailing_dir_for_location (get form ''Location'' ''Sydney'')) 10)),
       (''WindGustSpeed'', PyInt (gust_speed spd_3pm)),
       (''WindDir9am'', PyInt (get WIND_DIR_MAP
          (prevailing_dir_for_location (get form ''Location'' ''Sydney'')) 10)),
       (''WindDir3pm'', PyInt (get WIND_DIR_MAP
          (prevailing_dir_for_location (get form ''Location'' ''Sydney'')) 10)),
       (''WindSpeed9am'', PyInt (spd_9am spd_3pm)),
       (''WindSpeed3pm'', PyInt spd_3pm),
       (''Humidity9am'', PyInt hum_3pm),
       (''Humidity3pm'', PyInt hum_3pm),
       (''Pressure9am'', PyFloat (pressure3pm py hum_3pm)),
       (''Pressure3pm'', PyFloat (pressure3pm py hum_3pm)),
       (''Cloud9am'', PyInt cloud),
       (''Cloud3pm'', PyInt cloud),
       (''Temp9am'', PyFloat (temp9am py min_temp max_temp)),
       (''Temp3pm'', PyFloat (temp3pm py min_temp max_temp)),
       (''RainToday'', PyInt (if float_gt rainfall (lit py (2 / 10)) then 1 else 0)),
       (''Year'', PyInt (year date)),
       (''Month'', PyInt (month date)),
       (''Day'', PyInt (day date))]"
  using assms unfolding infer_missing_features_eq bindE_Inr_iff by blast






lemma crossed_min_max:
  assumes "float_gt lo hi"
  shows "py_min hi (py_max lo x) = hi" and "py_max lo (py_min hi x) = lo"
  using assms
  by (cases lo; cases hi; cases x; auto simp: py_min_def py_max_def float_gt_def)+

lemma floor_rat_numeral:
  "\<lfloor>numeral a / numeral b :: rat\<rfloor> = numeral a div numeral b"
  "\<lfloor>- (numeral a / numeral b) :: rat\<rfloor> = - numeral a div numeral b"
  by (metis floor_divide_of_int_eq of_int_numeral,
      metis floor_divide_of_int_eq of_int_numeral of_int_minus minus_divide_left)

lemmas parser_defs = decimal_float_def unsigned_decimal_def digit_def iso_date_def
  days_in_month_def

lemma exact_python_simps [simp]:
  "rnd exact_python q = q" "float exact_python = decimal_float"
  "fromisoformat exact_python = iso_date" "today exact_python = ''2024-07-15''"
  by (simp_all add: exact_python_def)

lemma scenario_parses:
  "parse_date exact_python (get scenario ''Date'' (today exact_python))
     = Inr \<lparr>year = 2024, month = 7, day = 15\<rparr>"
  "parse_float_in_range exact_python ''MinTemp'' (get scenario ''MinTemp'' ''13.0'') (-10) 45
     = Inr (Fin 10)"
  "parse_float_in_range exact_python ''MaxTemp'' (get scenario ''MaxTemp'' ''23.0'') (-10) 50
     = Inr (Fin 18)"
  "parse_int_in_range exact_python ''Humidity3pm'' (get scenario ''Humidity3pm'' ''55'') 0 100
     = Inr 70"
  "parse_int_in_range exact_python ''WindSpeed3pm'' (get scenario ''WindSpeed3pm'' ''20'') 0 100
     = Inr 15"
  "parse_float_in_range exact_python ''Rainfall'' (get scenario ''Rainfall'' ''0.0'') 0 200
     = Inr (Fin (1 / 5))"
  by (simp_all add: scenario_def get_def parse_date_def parse_float_in_range_def
      parse_int_in_range_def parse_float_def parser_defs float_gt_def round_half_even_def floor_rat_numeral
      Let_def)

lemma scenario_derived:
  "cloud3pm exact_python 70 = Inr 6"
  "evaporation exact_python (Fin 5) (Fin 10) (Fin 18) = Fin (21 / 25)"
  "sunshine exact_python (season_of 7) = Fin 5"
  "pressure3pm exact_python 70 = Fin (5067 / 5)"
  "temp9am exact_python (Fin 10) (Fin 18) = Fin (66 / 5)"
  "temp3pm exact_python (Fin 10) (Fin 18) = Fin (226 / 17)"
  "gust_speed 15 = 35" "spd_9am 15 = 12"
  "float_gt (Fin (1 / 5)) (lit exact_python (2 / 10)) = False"
  by (simp_all add: cloud3pm_eq round_half_even_def floor_rat_numeral Let_def evaporation_def sunshine_def season_of_def
      get_def lit_def py_max_def py_min_def float_gt_def pressure3pm_def float_of_int_def
      temp9am_def temp3pm_def gust_speed_def spd_9am_def)

lemma scenario_encoded:
  "get LOCATION_MAP (get scenario ''Location'' ''Sydney'') 0 = 35"
  "get WIND_DIR_MAP (prevailing_dir_for_location (get scenario ''Location'' ''Sydney'')) 10 = 2"
  by (simp_all add: scenario_def get_def LOCATION_MAP_def LOCATIONS_def enumerate_map_def
      enumerate_eq_zip upt_rec prevailing_dir_for_location_def PREVAILING_BY_LOCATION_def
      WIND_DIR_MAP_def WIND_DIRS_def)

lemma scenario_inferred: "infer_missing_features exact_python scenario = Inr scenario_vals"
  unfolding infer_missing_features_eq scenario_vals_def
  by (simp only: scenario_parses bindE_Inr date.select_convs scenario_derived scenario_encoded
      if_False)

section \<open>The feature row\<close>

lemma items_Inr:
  "items vals ks = Inr vs \<Longrightarrow> map Some vs = map vals ks"
  by (induction ks arbitrary: vs)
     (auto simp: bindE_Inr_iff item_def split: option.splits)

lemma items_all_present:
  "\<forall>k \<in> set ks. vals k \<noteq> None \<Longrightarrow> \<exists>vs. items vals ks = Inr vs"
  by (induction ks) (auto simp: item_def)

lemma build_feature_vector_order:
  assumes "build_feature_vector_from_inferred py vals = Inr X"
  shows "\<exists>row. X = [row] \<and> length row = 24 \<and>
           map Some row = map (\<lambda>k. map_option (as_float py) (vals k)) [
             ''Location'', ''MinTemp'', ''MaxTemp'', ''Rainfall'',
             ''Evaporation'', ''Sunshine'', ''WindGustDir'', ''WindGustSpeed'',
             ''WindDir9am'', ''WindDir3pm'', ''WindSpeed9am'', ''WindSpeed3pm'',
             ''Humidity9am'', ''Humidity3pm'', ''Pressure9am'', ''Pressure3pm'',
             ''Cloud9am'', ''Cloud3pm'', ''Temp9am'', ''Temp3pm'',
             ''RainToday'', ''Year'', ''Month'', ''Day'']"
proof -
  let ?ks = "[''Location'', ''MinTemp'', ''MaxTemp'', ''Rainfall'',
             ''Evaporation'', ''Sunshine'', ''WindGustDir'', ''WindGustSpeed'',
             ''WindDir9am'', ''WindDir3pm'', ''WindSpeed9am'', ''WindSpeed3pm'',
             ''Humidity9am'', ''Humidity3pm'', ''Pressure9am'', ''Pressure3pm'',
             ''Cloud9am'', ''Cloud3pm'', ''Temp9am'', ''Temp3pm'',
             ''RainToday'', ''Year'', ''Month'', ''Day'']"
  from assms obtain vs where vs: "items vals ?ks = Inr vs" and X: "X = [map (as_float py) vs]"
    unfolding build_feature_vector_from_inferred_def bindE_Inr_iff by auto
  from items_Inr [OF vs] have m: "map Some vs = map vals ?ks" .
  then have "length vs = length ?ks" by (metis length_map)
  moreover from m have "map (map_option (as_float py)) (map Some vs)
      = map (map_option (as_float py)) (map vals ?ks)" by simp
  then have "map Some (map (as_float py) vs) = map (\<lambda>k. map_option (as_float py) (vals k)) ?ks"
    by (simp only: map_map comp_def option.map)
  ultimately show ?thesis using X by simp
qed

lemma inferred_keys:
  assumes "infer_missing_features py form = Inr vals"
  shows "\<forall>k \<in> set [''Location'', ''MinTemp'', ''MaxTemp'', ''Rainfall'',
             ''Evaporation'', ''Sunshine'', ''WindGustDir'', ''WindGustSpeed'',
             ''WindDir9am'', ''WindDir3pm'', ''WindSpeed9am'', ''WindSpeed3pm'',
             ''Humidity9am'', ''Humidity3pm'', ''Pressure9am'', ''Pressure3pm'',
             ''Cloud9am'', ''Cloud3pm'', ''Temp9am'', ''Temp3pm'',
             ''RainToday'', ''Year'', ''Month'', ''Day'']. vals k \<noteq> None"
  using assms by (elim infer_Inr_E) simp

text \<open>
  C2. The row fed to the model, built from the inferred features, is one row whose entries
  are, in this order, the values of Location, MinTemp, MaxTemp, Rainfall, Evaporation,
  Sunshine, WindGustDir, WindGustSpeed, WindDir9am, WindDir3pm, WindSpeed9am, WindSpeed3pm,
  Humidity9am, Humidity3pm, Pressure9am, Pressure3pm, Cloud9am, Cloud3pm, Temp9am, Temp3pm,
  RainToday, Year, Month and Day, each converted to a float. These are 24 entries, not 23.
\<close>

theorem feature_row:
  assumes "infer_missing_features py form = Inr vals"
  shows "\<exists>row. build_feature_vector_from_inferred py vals = Inr [row] \<and> length row = 24 \<and>
           map Some row = map (\<lambda>k. map_option (as_float py) (vals k)) [
             ''Location'', ''MinTemp'', ''MaxTemp'', ''Rainfall'',
             ''Evaporation'', ''Sunshine'', ''WindGustDir'', ''WindGustSpeed'',
             ''WindDir9am'', ''WindDir3pm'', ''WindSpeed9am'', ''WindSpeed3pm'',
             ''Humidity9am'', ''Humidity3pm'', ''Pressure9am'', ''Pressure3pm'',
             ''Cloud9am'', ''Cloud3pm'', ''Temp9am'', ''Temp3pm'',
             ''RainToday'', ''Year'', ''Month'', ''Day'']"
proof -
  from items_all_present [OF inferred_keys [OF assms]]
  obtain X where "build_feature_vector_from_inferred py vals = Inr X"
    unfolding build_feature_vector_from_inferred_def by auto
  with build_feature_vector_order [OF this] show ?thesis by auto
qed

lemma scenario_built:
  "build_feature_vector_from_inferred exact_python scenario_vals = Inr [scenario_row]"
  by (simp add: build_feature_vector_from_inferred_def item_def scenario_vals_def
      scenario_row_def float_of_int_def)

theorem feature_row_witness:
  "infer_missing_features exact_python scenario = Inr scenario_vals
   \<and> build_feature_vector_from_inferred exact_python scenario_vals = Inr [scenario_row]
   \<and> length scenario_row = 24
   \<and> map Some scenario_row = map (\<lambda>k. map_option (as_float exact_python) (scenario_vals k)) [
             ''Location'', ''MinTemp'', ''MaxTemp'', ''Rainfall'',
             ''Evaporation'', ''Sunshine'', ''WindGustDir'', ''WindGustSpeed'',
             ''WindDir9am'', ''WindDir3pm'', ''WindSpeed9am'', ''WindSpeed3pm'',
             ''Humidity9am'', ''Humidity3pm'', ''Pressure9am'', ''Pressure3pm'',
             ''Cloud9am'', ''Cloud3pm'', ''Temp9am'', ''Temp3pm'',
             ''RainToday'', ''Year'', ''Month'', ''Day'']"
  using feature_row [OF scenario_inferred] scenario_inferred scenario_built by auto

theorem feature_row_not_23:
  "infer_missing_features exact_python scenario = Inr scenario_vals
   \<and> build_feature_vector_from_inferred exact_python scenario_vals = Inr [scenario_row]
   \<and> length scenario_row \<noteq> 23"
  using scenario_inferred scenario_built by (simp add: scenario_row_def)

section \<open>The inferred features\<close>











lemma default_parses:
  "parse_date exact_python ''2024-07-15'' = Inr \<lparr>year = 2024, month = 7, day = 15\<rparr>"
  "parse_float_in_range exact_python ''MinTemp'' ''13.0'' (-10) 45 = Inr (Fin 13)"
  "parse_float_in_range exact_python ''MaxTemp'' ''23.0'' (-10) 50 = Inr (Fin 23)"
  "parse_int_in_range exact_python ''Humidity3pm'' ''55'' 0 100 = Inr 55"
  "parse_int_in_range exact_python ''WindSpeed3pm'' ''20'' 0 100 = Inr 20"
  "parse_float_in_range exact_python ''Rainfall'' ''0.0'' 0 200 = Inr (Fin 0)"
  by (simp_all add: parse_date_def parse_float_in_range_def parse_int_in_range_def
      parse_float_def parser_defs float_gt_def round_half_even_def floor_rat_numeral Let_def)



















lemma infer_Inr_I:
  assumes "parse_date py (get form ''Date'' (today py)) = Inr date"
    and "parse_float_in_range py ''MinTemp'' (get form ''MinTemp'' ''13.0'') (-10) 45 = Inr min_temp"
    and "parse_float_in_range py ''MaxTemp'' (get form ''MaxTemp'' ''23.0'') (-10) 50 = Inr max_temp"
    and "parse_int_in_range py ''Humidity3pm'' (get form ''Humidity3pm'' ''55'') 0 100 = Inr hum_3pm"
    and "parse_int_in_range py ''WindSpeed3pm'' (get form ''WindSpeed3pm'' ''20'') 0 100 = Inr spd_3pm"
    and "parse_float_in_range py ''Rainfall'' (get form ''Rainfall'' ''0.0'') 0 200 = Inr rainfall"
  shows "\<exists>out. infer_missing_features py form = Inr out
           \<and> out ''MinTemp'' = Some (PyFloat min_temp)
           \<and> out ''MaxTemp'' = Some (PyFloat max_temp)
           \<and> out ''Temp3pm'' = Some (PyFloat (temp3pm py min_temp max_temp))
           \<and> out ''Temp9am'' = Some (PyFloat (temp9am py min_temp max_temp))"
  unfolding infer_missing_features_eq
  by (simp add: assms cloud3pm_eq)

text \<open>
  C9. No check relates the two temperatures: when every field of the form passes its own
  validation and the validated MinTemp is greater than the validated MaxTemp, the features
  are inferred without an error, with Temp3pm = MaxTemp and Temp9am = MinTemp.
\<close>

theorem no_cross_field_check:
  assumes "parse_date py (get form ''Date'' (today py)) = Inr date"
    and "parse_float_in_range py ''MinTemp'' (get form ''MinTemp'' ''13.0'') (-10) 45 = Inr min_temp"
    and "parse_float_in_range py ''MaxTemp'' (get form ''MaxTemp'' ''23.0'') (-10) 50 = Inr max_temp"
    and "parse_int_in_range py ''Humidity3pm'' (get form ''Humidity3pm'' ''55'') 0 100 = Inr hum_3pm"
    and "parse_int_in_range py ''WindSpeed3pm'' (get form ''WindSpeed3pm'' ''20'') 0 100 = Inr spd_3pm"
    and "parse_float_in_range py ''Rainfall'' (get form ''Rainfall'' ''0.0'') 0 200 = Inr rainfall"
    and "float_gt min_temp max_temp"
  shows "\<exists>out. infer_missing_features py form = Inr out
           \<and> out ''MinTemp'' = Some (PyFloat min_temp)
           \<and> out ''MaxTemp'' = Some (PyFloat max_temp)
           \<and> out ''Temp3pm'' = Some (PyFloat max_temp)
           \<and> out ''Temp9am'' = Some (PyFloat min_temp)"
  using infer_Inr_I [OF assms(1-6)] crossed_min_max [OF assms(7)]
  by (simp add: temp3pm_def temp9am_def)

lemma crossed_parses:
  "parse_float_in_range exact_python ''MinTemp'' ''30'' (-10) 45 = Inr (Fin 30)"
  "parse_float_in_range exact_python ''MaxTemp'' ''20'' (-10) 50 = Inr (Fin 20)"
  by (simp_all add: parse_float_in_range_def parse_float_def parser_defs float_gt_def)

lemma crossed_get:
  "get crossed ''Date'' (today exact_python) = ''2024-07-15''"
  "get crossed ''MinTemp'' ''13.0'' = ''30''"
  "get crossed ''MaxTemp'' ''23.0'' = ''20''"
  "get crossed ''Humidity3pm'' ''55'' = ''55''"
  "get crossed ''WindSpeed3pm'' ''20'' = ''20''"
  "get crossed ''Rainfall'' ''0.0'' = ''0.0''"
  by (simp_all add: get_def crossed_def)

theorem no_cross_field_check_witness:
  "float_gt (Fin 30) (Fin 20)
   \<and> (\<exists>out. infer_missing_features exact_python crossed = Inr out
          \<and> out ''MinTemp'' = Some (PyFloat (Fin 30))
          \<and> out ''MaxTemp'' = Some (PyFloat (Fin 20))
          \<and> out ''Temp3pm'' = Some (PyFloat (Fin 20))
          \<and> out ''Temp9am'' = Some (PyFloat (Fin 30)))"
proof -
  have gt: "float_gt (Fin 30) (Fin 20)" by (simp add: float_gt_def)
  from no_cross_field_check [of exact_python crossed "\<lparr>year = 2024, month = 7, day = 15\<rparr>"
      "Fin 30" "Fin 20" 55 20 "Fin 0"] gt
  show ?thesis
    by (simp only: crossed_get default_parses crossed_parses)
qed

section \<open>Validation and NaN\<close>

lemma nan_passes_range_check:
  assumes "float py v = Some NaN"
  shows "parse_float_in_range py name v lo hi = Inr NaN"
    and "parse_int_in_range py name v lo hi = Inl ValueError"
  using assms
  by (simp_all add: parse_int_in_range_def parse_float_in_range_def parse_float_def float_gt_def)

lemma float_nan: "float exact_python ''nan'' = Some NaN"
  by (simp add: decimal_float_def)

text \<open>
  C10. A posted \<open>nan\<close> is read by \<open>float\<close> and passes the range check, since both of its
  comparisons are false on NaN. For Humidity3pm the rounding then raises \<open>ValueError\<close>,
  which is not a \<open>CustomException\<close>, before the non-numeric Rainfall of the same form is
  read; for MinTemp the function returns features that hold NaN.
\<close>

theorem nan_escapes_validation:
  "parse_float exact_python ''Rainfall'' ''abc''
     = Inl (CustomException (MustBeNumeric ''Rainfall'') (Some ValueError))
   \<and> infer_missing_features exact_python nan_humidity = Inl ValueError
   \<and> parse_float_in_range exact_python ''MinTemp'' ''nan'' (-10) 45 = Inr NaN
   \<and> (\<exists>out. infer_missing_features exact_python nan_min_temp = Inr out
          \<and> out ''MinTemp'' = Some (PyFloat NaN))"
proof -
  have 1: "parse_float exact_python ''Rainfall'' ''abc''
     = Inl (CustomException (MustBeNumeric ''Rainfall'') (Some ValueError))"
    by (simp add: parse_float_def parser_defs)
  have g: "get nan_humidity ''Date'' (today exact_python) = ''2024-07-15''"
    "get nan_humidity ''MinTemp'' ''13.0'' = ''13.0''"
    "get nan_humidity ''MaxTemp'' ''23.0'' = ''23.0''"
    "get nan_humidity ''Humidity3pm'' ''55'' = ''nan''"
    by (simp_all add: get_def nan_humidity_def)
  have 2: "infer_missing_features exact_python nan_humidity = Inl ValueError"
    unfolding infer_missing_features_eq
    by (simp only: g default_parses nan_passes_range_check(2) [OF float_nan] bindE_Inr bindE_Inl)
  have h: "get nan_min_temp ''Date'' (today exact_python) = ''2024-07-15''"
    "get nan_min_temp ''MinTemp'' ''13.0'' = ''nan''"
    "get nan_min_temp ''MaxTemp'' ''23.0'' = ''23.0''"
    "get nan_min_temp ''Humidity3pm'' ''55'' = ''55''"
    "get nan_min_temp ''WindSpeed3pm'' ''20'' = ''20''"
    "get nan_min_temp ''Rainfall'' ''0.0'' = ''0.0''"
    by (simp_all add: get_def nan_min_temp_def)
  have 3: "parse_float_in_range exact_python ''MinTemp'' ''nan'' (-10) 45 = Inr NaN"
    by (rule nan_passes_range_check(1) [OF float_nan])
  have 4: "\<exists>out. infer_missing_features exact_python nan_min_temp = Inr out
          \<and> out ''MinTemp'' = Some (PyFloat NaN)"
    using infer_Inr_I [of exact_python nan_min_temp "\<lparr>year = 2024, month = 7, day = 15\<rparr>"
        NaN "Fin 23" 55 20 "Fin 0"]
    by (simp only: h default_parses 3) blast
  from 1 2 3 4 show ?thesis by blast
qed

section \<open>Failures of the offline pipeline\<close>

lemma try_except_Some:
  "try_except f m body s = (Some x, s') \<longleftrightarrow>
     (\<exists>e t. body s = (Some e, t) \<and> x = CustomException (Text f) (Some e)
        \<and> s' = t\<lparr>logged := logged t @ [Error m]\<rparr>)"
  by (auto simp: try_except_def split: prod.splits option.splits)

lemma try_except_None:
  "try_except f m body s = (None, s') \<longleftrightarrow> body s = (None, s')"
  by (auto simp: try_except_def split: prod.splits option.splits)

lemma and_then_Some:
  "and_then r next = (Some x, s') \<longleftrightarrow>
     r = (Some x, s') \<or> (\<exists>s1. r = (None, s1) \<and> next s1 = (Some x, s'))"
  by (auto simp: and_then_def split: prod.splits option.splits)

text \<open>
  C7. \<open>run\<close> raises exactly when one of its four steps does, in which case the exception is
  the \<open>CustomException\<close> of the first step whose body raises, carrying that step's message
  and the exception the body raised, and the state is the one that body left plus the error
  record of that step: no later step has run.
\<close>

theorem failing_step_aborts_run:
  "run lib s = (Some x, s') \<longleftrightarrow>
     (\<exists>e t. load_data_body lib s = (Some e, t)
        \<and> x = CustomException (Text ''Failed to load data'') (Some e)
        \<and> s' = t\<lparr>logged := logged t @ [Error ''Error while loading data: %s'']\<rparr>)
   \<or> (\<exists>s1 e t. load_data_body lib s = (None, s1)
        \<and> preprocess_body lib s1 = (Some e, t)
        \<and> x = CustomException (Text ''Failed to preprocess data'') (Some e)
        \<and> s' = t\<lparr>logged := logged t @ [Error ''Error while preprocessing data: %s'']\<rparr>)
   \<or> (\<exists>s1 s2 e t. load_data_body lib s = (None, s1)
        \<and> preprocess_body lib s1 = (None, s2)
        \<and> label_encode_body lib s2 = (Some e, t)
        \<and> x = CustomException (Text ''Failed to label encode data'') (Some e)
        \<and> s' = t\<lparr>logged := logged t @ [Error ''Error while label encoding data: %s'']\<rparr>)
   \<or> (\<exists>s1 s2 s3 e t. load_data_body lib s = (None, s1)
        \<and> preprocess_body lib s1 = (None, s2)
        \<and> label_encode_body lib s2 = (None, s3)
        \<and> split_data_body lib s3 = (Some e, t)
        \<and> x = CustomException (Text ''Failed to split data'') (Some e)
        \<and> s' = t\<lparr>logged := logged t @ [Error ''Error while splitting data: %s'']\<rparr>)"
  unfolding run_def and_then_Some load_data_def preprocess_def label_encode_def split_data_def
    try_except_Some try_except_None
  by auto

theorem failing_step_aborts_run_witness:
  "run sample_library processor =
     (Some (CustomException (Text ''Failed to label encode data'')
              (Some (Exception ''TypeError''))),
      processor\<lparr>df := Some 3,
        logged := [Info ''Data Processing initialised.'',
                   Info ''Data loaded successfully. Shape: %s'',
                   Info ''Basic data preprocessing completed.'',
                   Info ''Label mapping for %s: %s'',
                   Info ''Label mapping for %s: %s'',
                   Error ''Error while label encoding data: %s'']\<rparr>)"
proof -
  let ?s1 = "processor\<lparr>df := Some 0,
     logged := [Info ''Data Processing initialised.'',
                Info ''Data loaded successfully. Shape: %s'']\<rparr>"
  let ?s2 = "processor\<lparr>df := Some 1,
     logged := [Info ''Data Processing initialised.'',
                Info ''Data loaded successfully. Shape: %s'',
                Info ''Basic data preprocessing completed.'']\<rparr>"
  let ?t = "processor\<lparr>df := Some 3,
     logged := [Info ''Data Processing initialised.'',
                Info ''Data loaded successfully. Shape: %s'',
                Info ''Basic data preprocessing completed.'',
                Info ''Label mapping for %s: %s'',
                Info ''Label mapping for %s: %s'']\<rparr>"
  have l: "load_data_body sample_library processor = (None, ?s1)"
    by (simp add: load_data_body_def sample_library_def processor_def info_def)
  have p: "preprocess_body sample_library ?s1 = (None, ?s2)"
    by (simp add: preprocess_body_def sample_library_def processor_def info_def)
  have e: "label_encode_body sample_library ?s2 = (Some (Exception ''TypeError''), ?t)"
    by (simp add: label_encode_body_def sample_library_def processor_def info_def)
  have "\<exists>s1 s2 e t. load_data_body sample_library processor = (None, s1)
        \<and> preprocess_body sample_library s1 = (None, s2)
        \<and> label_encode_body sample_library s2 = (Some e, t)
        \<and> CustomException (Text ''Failed to label encode data'') (Some (Exception ''TypeError''))
            = CustomException (Text ''Failed to label encode data'') (Some e)
        \<and> ?t\<lparr>logged := logged ?t @ [Error ''Error while label encoding data: %s'']\<rparr>
            = t\<lparr>logged := logged t @ [Error ''Error while label encoding data: %s'']\<rparr>"
    using l p e by blast
  then have "run sample_library processor =
     (Some (CustomException (Text ''Failed to label encode data'')
              (Some (Exception ''TypeError''))),
      ?t\<lparr>logged := logged ?t @ [Error ''Error while label encoding data: %s'']\<rparr>)"
    by (subst failing_step_aborts_run) blast
  then show ?thesis by (simp add: processor_def)
qed

end
